theory Spec2Isabelle
  imports Main "HOL-Library.Word"
begin

section \<open>Values received from the bus\<close>

text \<open>
  The Go code receives values of static type \<open>any\<close> (the result of
  \<open>dbus.Variant.Value()\<close>, or an element of \<open>dbus.Signal.Body\<close>) and inspects them with
  type assertions. A value is modelled by its dynamic type and content. Only the dynamic
  types the code asserts are told apart; every other dynamic type is \<open>VOther\<close>.
  \<open>VMap\<close> is a \<open>map[string]dbus.Variant\<close>: the list gives the entries in the order in
  which a \<open>range\<close> loop visits them (Go leaves that order unspecified), and its keys are
  pairwise distinct, as the keys of a Go map are.
\<close>

datatype variant =
    VBool bool
  | VString string
  | VInt64 "64 word"
  | VStrings "string list"
  | VMap "(string \<times> variant) list"
  | VOther nat

definition wellFormedMap :: "(string \<times> variant) list \<Rightarrow> bool" where
  "wellFormedMap kvs = distinct (map fst kvs)"

section \<open>Status enumerations\<close>

type_synonym PlaybackStatus = string
type_synonym LoopStatus = string

definition PlaybackStatusPaused :: PlaybackStatus where
  "PlaybackStatusPaused = ''Paused''"

definition PlaybackStatusPlaying :: PlaybackStatus where
  "PlaybackStatusPlaying = ''Playing''"

definition PlaybackStatusStopped :: PlaybackStatus where
  "PlaybackStatusStopped = ''Stopped''"

definition PlaybackStatus_IsValid :: "PlaybackStatus \<Rightarrow> bool" where
  "PlaybackStatus_IsValid e =
     (e = PlaybackStatusPaused \<or> e = PlaybackStatusPlaying \<or> e = PlaybackStatusStopped)"

definition LoopStatusNone :: LoopStatus where
  "LoopStatusNone = ''None''"

definition LoopStatusTrack :: LoopStatus where
  "LoopStatusTrack = ''Track''"

definition LoopStatusPlaylist :: LoopStatus where
  "LoopStatusPlaylist = ''Playlist''"

definition LoopStatus_IsValid :: "LoopStatus \<Rightarrow> bool" where
  "LoopStatus_IsValid e =
     (e = LoopStatusNone \<or> e = LoopStatusTrack \<or> e = LoopStatusPlaylist)"

section \<open>The metadata decoder\<close>

text \<open>
  \<open>Length\<close> is a \<open>time.Duration\<close>, a signed 64-bit count of nanoseconds, and \<open>Year\<close>
  is an \<open>int8\<close>; both are words, read with \<open>sint\<close>.
\<close>

record Media =
  ID :: string
  Length :: "64 word"
  ArtURL :: string
  Artist :: string
  Album :: string
  AlbumArtist :: string
  Title :: string
  Genre :: string
  Year :: "8 word"
  URL :: string

definition zeroMedia :: Media where
  "zeroMedia = \<lparr>ID = [], Length = 0, ArtURL = [], Artist = [], Album = [],
     AlbumArtist = [], Title = [], Genre = [], Year = 0, URL = []\<rparr>"

text \<open>\<open>strings.Join\<close>.\<close>

fun Join :: "string list \<Rightarrow> string \<Rightarrow> string" where
  "Join [] sep = []"
| "Join [x] sep = x"
| "Join (x # y # ys) sep = x @ sep @ Join (y # ys) sep"

text \<open>
  \<open>time.Parse(time.RFC3339, v)\<close> followed by \<open>Year()\<close> belongs to Go's standard
  library. It is a parameter of the decoder: a function from the text to the calendar year
  of the parsed time, \<open>None\<close> when \<open>time.Parse\<close> returns an error.
\<close>

type_synonym rfc3339 = "string \<Rightarrow> int option"

text \<open>The keys that \<open>decodeMetadata\<close> lists with an empty case body.\<close>

definition ignoredKeys :: "string list" where
  "ignoredKeys = [''xesam:asText'', ''xesam:audioBPM'', ''xesam:autoRating'',
     ''xesam:comment'', ''xesam:composer'', ''xesam:discNumber'', ''xesam:firstUsed'',
     ''xesam:lastUsed'', ''xesam:lyricist'', ''xesam:trackNumber'', ''xesam:useCount'',
     ''xesam:userRating'']"

text \<open>One iteration of the \<open>range\<close> loop of \<open>decodeMetadata\<close>: the \<open>switch key\<close>.\<close>

definition decodeEntry :: "rfc3339 \<Rightarrow> string \<Rightarrow> variant \<Rightarrow> Media \<Rightarrow> Media" where
  "decodeEntry parseYear key val m =
     (if key = ''mpris:trackid'' then
        (case val of VString v \<Rightarrow> m\<lparr>ID := v\<rparr> | _ \<Rightarrow> m)
      else if key = ''mpris:length'' then
        (case val of VInt64 v \<Rightarrow> m\<lparr>Length := v * 1000\<rparr> | _ \<Rightarrow> m)
      else if key = ''mpris:artUrl'' then
        (case val of VString v \<Rightarrow> m\<lparr>ArtURL := v\<rparr> | _ \<Rightarrow> m)
      else if key = ''xesam:album'' then
        (case val of VString v \<Rightarrow> m\<lparr>Album := v\<rparr> | _ \<Rightarrow> m)
      else if key = ''xesam:albumArtist'' then
        (case val of VString v \<Rightarrow> m\<lparr>AlbumArtist := v\<rparr> | _ \<Rightarrow> m)
      else if key = ''xesam:artist'' then
        (case val of
           VString v \<Rightarrow> m\<lparr>Artist := v\<rparr>
         | VStrings v \<Rightarrow> m\<lparr>Artist := Join v '', ''\<rparr>
         | _ \<Rightarrow> m)
      else if key = ''xesam:contentCreated'' then
        (case val of
           VString v \<Rightarrow>
             (case parseYear v of
                Some y \<Rightarrow> m\<lparr>Year := word_of_int y\<rparr>
              | None \<Rightarrow> m)
         | _ \<Rightarrow> m)
      else if key = ''xesam:genre'' then
        (case val of VStrings v \<Rightarrow> m\<lparr>Genre := Join v '', ''\<rparr> | _ \<Rightarrow> m)
      else if key = ''xesam:title'' then
        (case val of VString v \<Rightarrow> m\<lparr>Title := v\<rparr> | _ \<Rightarrow> m)
      else if key = ''xesam:url'' then
        (case val of VString v \<Rightarrow> m\<lparr>URL := v\<rparr> | _ \<Rightarrow> m)
      else if key \<in> set ignoredKeys then m
      else m)"

text \<open>The \<open>range\<close> loop over the entries, in the order in which it visits them.\<close>

fun decodeEntries :: "rfc3339 \<Rightarrow> (string \<times> variant) list \<Rightarrow> Media \<Rightarrow> Media" where
  "decodeEntries parseYear [] m = m"
| "decodeEntries parseYear ((key, val) # rest) m =
     decodeEntries parseYear rest (decodeEntry parseYear key val m)"

datatype error =
    ErrDecodeMetadata
  | ErrUnsupported string
  | ErrTransport string string

text \<open>
  \<open>decodeMetadata(metadata any, m *Media) error\<close> writes through the pointer \<open>m\<close>: the
  model takes the record \<open>m\<close> points to and returns the error with the record as the
  call leaves it.
\<close>

definition decodeMetadata :: "rfc3339 \<Rightarrow> variant \<Rightarrow> Media \<Rightarrow> error option \<times> Media" where
  "decodeMetadata parseYear metadata m =
     (case metadata of
        VMap metadataMap \<Rightarrow> (None, decodeEntries parseYear metadataMap m)
      | _ \<Rightarrow> (Some ErrDecodeMetadata, m))"

section \<open>The cached endpoint state\<close>

record properties =
  PlaybackStatus :: PlaybackStatus
  LoopStatus :: LoopStatus
  Shuffle :: bool
  Media :: Media

text \<open>The value of \<open>&properties{}\<close>: every field at its zero value.\<close>

definition zeroProperties :: properties where
  "zeroProperties = \<lparr>PlaybackStatus = [], LoopStatus = [], Shuffle = False,
     Media = zeroMedia\<rparr>"

text \<open>
  The remote object \<open>p.obj\<close>: what \<open>GetProperty\<close> answers for a property name (\<open>Inl\<close> a
  transport error) and what \<open>Call\<close> answers for a method name (\<open>Some\<close> a transport
  error).
\<close>

record BusObject =
  GetProperty :: "string \<Rightarrow> string + variant"
  Call :: "string \<Rightarrow> string option"

text \<open>
  \<open>properties\<close> is a pointer in the source and \<open>nil\<close> until \<open>UpdateProperties\<close> has
  run once: it is an option here.
\<close>

record Player =
  obj :: BusObject
  destination :: string
  Name :: string
  Short :: string
  ownerID :: string
  properties :: "properties option"
  isConnected :: bool

definition objectPathMpris :: string where
  "objectPathMpris = ''/org/mpris/MediaPlayer2''"

definition interfacePathMprisMediaPlayer2 :: string where
  "interfacePathMprisMediaPlayer2 = ''org.mpris.MediaPlayer2''"

definition interfacePathMprisMediaPlayer2Player :: string where
  "interfacePathMprisMediaPlayer2Player = ''org.mpris.MediaPlayer2.Player''"

definition interfacePathDBusProperties :: string where
  "interfacePathDBusProperties = ''org.freedesktop.DBus.Properties''"

definition interfacePathDBus :: string where
  "interfacePathDBus = ''org.freedesktop.DBus''"

definition memberNameOwnerChanged :: string where
  "memberNameOwnerChanged = ''NameOwnerChanged''"

definition memberNamePropertiesChanged :: string where
  "memberNamePropertiesChanged = ''PropertiesChanged''"

definition signalNamePropertiesChanged :: string where
  "signalNamePropertiesChanged =
     interfacePathDBusProperties @ ''.'' @ memberNamePropertiesChanged"

definition signalNameOwnerChanged :: string where
  "signalNameOwnerChanged = interfacePathDBus @ ''.'' @ memberNameOwnerChanged"

subsection \<open>UpdateProperties\<close>

text \<open>
  One iteration of the \<open>range\<close> loop of \<open>UpdateProperties\<close>, on the state and the change
  list built so far.
\<close>

definition updateEntry ::
  "rfc3339 \<Rightarrow> string \<Rightarrow> variant \<Rightarrow> properties \<times> string list \<Rightarrow> properties \<times> string list"
where
  "updateEntry parseYear key val st =
     (let ps = fst st; changeList = snd st in
      if key = ''Shuffle'' then
        (case val of
           VBool v \<Rightarrow>
             if Shuffle ps \<noteq> v then (ps\<lparr>Shuffle := v\<rparr>, changeList @ [key])
             else (ps, changeList)
         | _ \<Rightarrow> (ps, changeList))
      else if key = ''PlaybackStatus'' then
        (case val of
           VString s \<Rightarrow>
             if PlaybackStatus_IsValid s \<and> PlaybackStatus ps \<noteq> s
             then (ps\<lparr>PlaybackStatus := s\<rparr>, changeList @ [key])
             else (ps, changeList)
         | _ \<Rightarrow> (ps, changeList))
      else if key = ''LoopStatus'' then
        (case val of
           VString v \<Rightarrow>
             (let s = (if \<not> LoopStatus_IsValid v then LoopStatusNone else v) in
              if LoopStatus ps \<noteq> s then (ps\<lparr>LoopStatus := s\<rparr>, changeList @ [key])
              else (ps, changeList))
         | _ \<Rightarrow> (ps, changeList))
      else if key = ''Metadata'' then
        (case decodeMetadata parseYear val (Media ps) of
           (None, m) \<Rightarrow> (ps\<lparr>Media := m\<rparr>, changeList @ [key])
         | (Some err, m) \<Rightarrow> (ps\<lparr>Media := m\<rparr>, changeList))
      else (ps, changeList))"

fun updateEntries ::
  "rfc3339 \<Rightarrow> (string \<times> variant) list \<Rightarrow> properties \<times> string list
     \<Rightarrow> properties \<times> string list"
where
  "updateEntries parseYear [] st = st"
| "updateEntries parseYear ((key, val) # rest) st =
     updateEntries parseYear rest (updateEntry parseYear key val st)"

text \<open>
  \<open>UpdateProperties\<close> has a pointer receiver: the model returns the player as the call
  leaves it, with the change list. \<open>props\<close> lists the entries of the map in the order of
  the \<open>range\<close> loop; a \<open>nil\<close> map is the empty list. \<open>cached p\<close> is the state the
  loop starts from: \<open>p.properties\<close>, allocated with zero values when it is \<open>nil\<close>.
\<close>

definition cached :: "Player \<Rightarrow> properties" where
  "cached p = (case properties p of None \<Rightarrow> zeroProperties | Some ps \<Rightarrow> ps)"

definition UpdateProperties ::
  "rfc3339 \<Rightarrow> Player \<Rightarrow> (string \<times> variant) list \<Rightarrow> Player \<times> string list"
where
  "UpdateProperties parseYear p props =
     (let st = updateEntries parseYear props (cached p, [])
      in (p\<lparr>properties := Some (fst st)\<rparr>, snd st))"

subsection \<open>The destination name\<close>

text \<open>
  \<open>destinationRegexp\<close> is compiled from
  \<^verbatim>\<open>^org.mpris.MediaPlayer2.([a-zA-Z-_]{1}[a-zA-Z-_0-9.]*)$\<close>.
  The dots before the group are not escaped: each matches any one character but a line
  feed. In both classes the \<open>-\<close> after \<open>a-zA-Z\<close> is a literal: the first class holds
  the letters, \<open>-\<close> and \<open>_\<close>, the second also the digits and the dot. \<open>^\<close> and \<open>$\<close>
  anchor the match at both ends of the text.

  A Go string is a sequence of bytes, a \<open>char\<close> each, and the regexp reads it one
  character at a time as \<open>utf8.DecodeRuneInString\<close> does. \<open>runeWidth c cs\<close> is the
  number of bytes of the character that starts with the byte \<open>c\<close>, followed by \<open>cs\<close>: one
  for an ASCII byte, two to four for a well-formed multi-byte encoding, one for a byte
  that starts no well-formed encoding. The letters of the pattern outside the dots and
  the members of both classes are ASCII, so that they match single bytes.
\<close>

definition inRange :: "nat \<Rightarrow> nat \<Rightarrow> char \<Rightarrow> bool" where
  "inRange lo hi c = (lo \<le> of_char c \<and> (of_char c :: nat) \<le> hi)"

definition runeWidth :: "char \<Rightarrow> string \<Rightarrow> nat" where
  "runeWidth c cs =
     (let b = (of_char c :: nat);
          sz = (if 194 \<le> b \<and> b \<le> 223 then 2
                else if 224 \<le> b \<and> b \<le> 239 then 3
                else if 240 \<le> b \<and> b \<le> 244 then 4
                else 1 :: nat);
          lo = (if b = 224 then 160 else if b = 240 then 144 else 128);
          hi = (if b = 237 then 159 else if b = 244 then 143 else 191)
      in if sz = 1 then 1
         else if length cs + 1 < sz then 1
         else if \<not> inRange lo hi (cs ! 0) then 1
         else if sz = 2 then 2
         else if \<not> inRange 128 191 (cs ! 1) then 1
         else if sz = 3 then 3
         else if \<not> inRange 128 191 (cs ! 2) then 1
         else 4)"

definition destinationPrefix :: string where
  "destinationPrefix = ''org.mpris.MediaPlayer2.''"

text \<open>
  Matching the text before the group: \<open>pat\<close> against the start of the input, a dot of
  \<open>pat\<close> as the wildcard for one character; the result is the input that follows.
\<close>

fun matchPrefix :: "string \<Rightarrow> string \<Rightarrow> string option" where
  "matchPrefix [] s = Some s"
| "matchPrefix (p # ps) [] = None"
| "matchPrefix (p # ps) (c # cs) =
     (if p = CHR ''.'' then
        (if c \<noteq> CHR 0x0A then matchPrefix ps (drop (runeWidth c cs - 1) cs) else None)
      else if c = p then matchPrefix ps cs
      else None)"

definition isLetter :: "char \<Rightarrow> bool" where
  "isLetter c = (let n = (of_char c :: nat) in (97 \<le> n \<and> n \<le> 122) \<or> (65 \<le> n \<and> n \<le> 90))"

definition isDigit :: "char \<Rightarrow> bool" where
  "isDigit c = (let n = (of_char c :: nat) in 48 \<le> n \<and> n \<le> 57)"

definition inFirstClass :: "char \<Rightarrow> bool" where
  "inFirstClass c = (isLetter c \<or> c = CHR ''-'' \<or> c = CHR ''_'')"

definition inRestClass :: "char \<Rightarrow> bool" where
  "inRestClass c =
     (isLetter c \<or> c = CHR ''-'' \<or> c = CHR ''_'' \<or> isDigit c \<or> c = CHR ''.'')"

text \<open>
  \<open>destinationRegexp.FindStringSubmatch(dest)\<close>: \<open>None\<close> when there is no match,
  otherwise the text of the group.
\<close>

definition FindStringSubmatch :: "string \<Rightarrow> string option" where
  "FindStringSubmatch dest =
     (case matchPrefix destinationPrefix dest of
        None \<Rightarrow> None
      | Some [] \<Rightarrow> None
      | Some (c # cs) \<Rightarrow>
          if inFirstClass c \<and> list_all inRestClass cs then Some (c # cs) else None)"

definition HasValidDestinationName :: "string \<Rightarrow> bool" where
  "HasValidDestinationName dest = (FindStringSubmatch dest \<noteq> None)"

subsection \<open>Control operations\<close>

text \<open>What an operation does to the remote object, in order.\<close>

datatype remote = RemoteGetProperty string | RemoteCall string

text \<open>
  An operation returns an error (or \<open>nil\<close>), or panics on the \<open>nil\<close> pointer
  \<open>p.properties\<close>.
\<close>

datatype outcome = Returned "error option" | NilDereference

definition getPlayerProp :: "Player \<Rightarrow> string \<Rightarrow> (string + variant) \<times> remote list" where
  "getPlayerProp p prop =
     (let n = interfacePathMprisMediaPlayer2Player @ ''.'' @ prop
      in (GetProperty (obj p) n, [RemoteGetProperty n]))"

definition makePlayerCall :: "Player \<Rightarrow> string \<Rightarrow> string option \<times> remote list" where
  "makePlayerCall p method =
     (let n = interfacePathMprisMediaPlayer2Player @ ''.'' @ method
      in (Call (obj p) n, [RemoteCall n]))"

text \<open>The body that the \<open>Can...\<close> methods share, on the answer of the property query.\<close>

definition isTrue :: "string + variant \<Rightarrow> bool" where
  "isTrue r =
     (case r of
        Inl err \<Rightarrow> False
      | Inr prop \<Rightarrow> (case prop of VBool v \<Rightarrow> v | _ \<Rightarrow> False))"

definition CanPlay :: "Player \<Rightarrow> bool \<times> remote list" where
  "CanPlay p = (let r = getPlayerProp p ''CanPlay'' in (isTrue (fst r), snd r))"

definition CanControl :: "Player \<Rightarrow> bool \<times> remote list" where
  "CanControl p = (let r = getPlayerProp p ''CanControl'' in (isTrue (fst r), snd r))"

definition CanPause :: "Player \<Rightarrow> bool \<times> remote list" where
  "CanPause p = (let r = getPlayerProp p ''CanPause'' in (isTrue (fst r), snd r))"

text \<open>
  \<open>Play\<close>, \<open>Stop\<close> and \<open>Pause\<close> return the outcome and what they did to the remote
  object. \<open>ErrUnsupported\<close> carries the prefix of the message built with
  \<open>fmt.Errorf\<close>, \<open>ErrTransport\<close> the prefix and the error of the call it wraps.
\<close>

definition Play :: "Player \<Rightarrow> outcome \<times> remote list" where
  "Play p =
     (case properties p of
        None \<Rightarrow> (NilDereference, [])
      | Some ps \<Rightarrow>
          if PlaybackStatus ps = PlaybackStatusPlaying then (Returned None, [])
          else
            (let can = CanPlay p in
             if \<not> fst can then (Returned (Some (ErrUnsupported ''mpris.Play'')), snd can)
             else
               (let c = makePlayerCall p ''Play'' in
                case fst c of
                  Some err \<Rightarrow>
                    (Returned (Some (ErrTransport ''mpris.Play'' err)), snd can @ snd c)
                | None \<Rightarrow> (Returned None, snd can @ snd c))))"

definition Stop :: "Player \<Rightarrow> outcome \<times> remote list" where
  "Stop p =
     (case properties p of
        None \<Rightarrow> (NilDereference, [])
      | Some ps \<Rightarrow>
          if PlaybackStatus ps = PlaybackStatusStopped then (Returned None, [])
          else
            (let can = CanControl p in
             if \<not> fst can then (Returned (Some (ErrUnsupported ''mpris.Stop'')), snd can)
             else
               (let c = makePlayerCall p ''Stop'' in
                case fst c of
                  Some err \<Rightarrow>
                    (Returned (Some (ErrTransport ''mpris.Stop'' err)), snd can @ snd c)
                | None \<Rightarrow> (Returned None, snd can @ snd c))))"

definition Pause :: "Player \<Rightarrow> outcome \<times> remote list" where
  "Pause p =
     (case properties p of
        None \<Rightarrow> (NilDereference, [])
      | Some ps \<Rightarrow>
          if PlaybackStatus ps = PlaybackStatusPaused then (Returned None, [])
          else
            (let can = CanPause p in
             if \<not> fst can then (Returned (Some (ErrUnsupported ''mpris.Pause'')), snd can)
             else
               (let c = makePlayerCall p ''Pause'' in
                case fst c of
                  Some err \<Rightarrow>
                    (Returned (Some (ErrTransport ''mpris.Pause'' err)), snd can @ snd c)
                | None \<Rightarrow> (Returned None, snd can @ snd c))))"

subsection \<open>The listener started by Register\<close>

text \<open>A \<open>dbus.Signal\<close>; the elements of \<open>Body\<close> have static type \<open>any\<close>.\<close>

record Signal =
  Sender :: string
  Path :: string
  Name :: string
  Body :: "variant list"

text \<open>What the listener does to its surroundings, in order.\<close>

datatype effect =
    OnPropertyChange string "string list"
  | RemoveSignal
  | OnDisconnect string
  | RemoveMatchOwnerChanged
  | RemoveMatchPropertiesChanged
  | CloseChannel
  | CloseOfClosedChannel

text \<open>
  One iteration of the loop on a received signal: the loop goes on with the player as the
  iteration leaves it, or \<open>break Loop\<close> is reached, or an index into \<open>msg.Body\<close> is
  out of range and the goroutine panics.
\<close>

datatype step = Continue Player "effect list" | BreakLoop | IndexOutOfRange

definition handleSignal :: "rfc3339 \<Rightarrow> Player \<Rightarrow> Signal \<Rightarrow> step" where
  "handleSignal parseYear p msg =
     (if Signal.Name msg = signalNamePropertiesChanged then
        (if Sender msg \<noteq> ownerID p then Continue p []
         else
           (case Body msg of
              [] \<Rightarrow> IndexOutOfRange
            | b0 # bs \<Rightarrow>
                if b0 = VString interfacePathMprisMediaPlayer2Player then
                  (case bs of
                     [] \<Rightarrow> IndexOutOfRange
                   | b1 # _ \<Rightarrow>
                       (let varMap = (case b1 of VMap kvs \<Rightarrow> kvs | _ \<Rightarrow> []);
                            r = UpdateProperties parseYear p varMap
                        in if length (snd r) > 0
                           then Continue (fst r) [OnPropertyChange (Player.Name p) (snd r)]
                           else Continue (fst r) []))
                else Continue p []))
      else if Signal.Name msg = signalNameOwnerChanged then
        (case Body msg of
           [] \<Rightarrow> IndexOutOfRange
         | b0 # bs \<Rightarrow>
             (case b0 of
                VString name \<Rightarrow>
                  if name = Player.Name p then
                    (case bs of
                       [] \<Rightarrow> IndexOutOfRange
                     | b1 # _ \<Rightarrow>
                         (case b1 of
                            VString owner \<Rightarrow> if owner \<noteq> [] then BreakLoop else Continue p []
                          | _ \<Rightarrow> Continue p []))
                  else Continue p []
              | _ \<Rightarrow> Continue p []))
      else Continue p [])"

text \<open>Why the loop was left.\<close>

datatype exit = ChannelClosed | OwnerChanged | Panicked

text \<open>
  The loop, on the signals the channel delivers before it is closed: the player, the
  callbacks made and the reason of the exit.
\<close>

fun listenLoop :: "rfc3339 \<Rightarrow> Player \<Rightarrow> Signal list \<Rightarrow> Player \<times> effect list \<times> exit" where
  "listenLoop parseYear p [] = (p, [], ChannelClosed)"
| "listenLoop parseYear p (msg # msgs) =
     (case handleSignal parseYear p msg of
        Continue p' es \<Rightarrow>
          (case listenLoop parseYear p' msgs of (q, es', x) \<Rightarrow> (q, es @ es', x))
      | BreakLoop \<Rightarrow> (p, [], OwnerChanged)
      | IndexOutOfRange \<Rightarrow> (p, [], Panicked))"

text \<open>
  The deferred function of the goroutine. It runs on every exit of the loop, a panic
  included, and ends with \<open>close(signalCh)\<close>. \<open>teardown\<close> is what it does while the
  channel is open. When the loop was left because the channel is closed, the same steps
  end with the close of a closed channel, which panics: \<open>teardownClosed\<close>.
\<close>

definition teardown :: "Player \<Rightarrow> effect list" where
  "teardown p = [RemoveSignal, OnDisconnect (Player.Name p), RemoveMatchOwnerChanged,
     RemoveMatchPropertiesChanged, CloseChannel]"

definition teardownClosed :: "Player \<Rightarrow> effect list" where
  "teardownClosed p = [RemoveSignal, OnDisconnect (Player.Name p), RemoveMatchOwnerChanged,
     RemoveMatchPropertiesChanged, CloseOfClosedChannel]"

text \<open>
  The goroutine: the loop, then the deferred function. It returns after \<open>break Loop\<close>
  only; after the other two exits it ends in a panic, of the index out of range or of the
  close of the closed channel.
\<close>

definition listener :: "rfc3339 \<Rightarrow> Player \<Rightarrow> Signal list \<Rightarrow> Player \<times> effect list \<times> exit" where
  "listener parseYear p msgs =
     (case listenLoop parseYear p msgs of
        (q, es, x) \<Rightarrow>
          (q, es @ (if x = ChannelClosed then teardownClosed q else teardown q), x))"

section \<open>Vocabulary of the properties\<close>

text \<open>The type assertions of the decoder, as tests on a value.\<close>

definition isString :: "variant \<Rightarrow> bool" where
  "isString val = (case val of VString v \<Rightarrow> True | _ \<Rightarrow> False)"

definition isStrings :: "variant \<Rightarrow> bool" where
  "isStrings val = (case val of VStrings v \<Rightarrow> True | _ \<Rightarrow> False)"

definition isInt64 :: "variant \<Rightarrow> bool" where
  "isInt64 val = (case val of VInt64 v \<Rightarrow> True | _ \<Rightarrow> False)"

text \<open>The keys whose case of \<open>decodeMetadata\<close> asserts a string and nothing else.\<close>

definition stringKeys :: "string list" where
  "stringKeys = [''mpris:trackid'', ''mpris:artUrl'', ''xesam:album'', ''xesam:albumArtist'',
     ''xesam:contentCreated'', ''xesam:title'', ''xesam:url'']"

text \<open>
  \<open>mistyped key val\<close>: \<open>key\<close> is a key that \<open>decodeMetadata\<close> decodes and every type
  assertion in the case of \<open>key\<close> fails on \<open>val\<close>.
\<close>

definition mistyped :: "string \<Rightarrow> variant \<Rightarrow> bool" where
  "mistyped key val =
     (if key = ''mpris:length'' then \<not> isInt64 val
      else if key = ''xesam:artist'' then \<not> isString val \<and> \<not> isStrings val
      else if key = ''xesam:genre'' then \<not> isStrings val
      else if key \<in> set stringKeys then \<not> isString val
      else False)"



section \<open>Discovery of endpoints\<close>

text \<open>
  The loop of \<open>main\<close> that discovers endpoints reads the same
  \<open>org.freedesktop.DBus.NameOwnerChanged\<close> signal: it wants three arguments, takes the
  first as the bus name and the third, \<open>msg.Body[2]\<close>, as the owner of the new player
  that it passes to \<open>NewPlayer\<close>. \<open>discovered msg\<close> is the pair passed to
  \<open>NewPlayer\<close>, if any. The signal carries the name, its old owner and its new owner, in
  this order.
\<close>

definition discovered :: "Signal \<Rightarrow> (string \<times> string) option" where
  "discovered msg =
     (if Signal.Name msg \<noteq> signalNameOwnerChanged then None
      else if length (Body msg) \<noteq> 3 then None
      else
        (case Body msg ! 0 of
           VString name \<Rightarrow>
             if HasValidDestinationName name then
               (case Body msg ! 2 of
                  VString owner \<Rightarrow> if owner \<noteq> [] then Some (name, owner) else None
                | _ \<Rightarrow> None)
             else None
         | _ \<Rightarrow> None))"

section \<open>Sample values\<close>

text \<open>
  A \<open>NameOwnerChanged\<close> signal as the bus sends it, a remote object that fails every
  query, players on it, a cached state, and change batches.
\<close>

definition ownerChanged :: "string \<Rightarrow> string \<Rightarrow> string \<Rightarrow> Signal" where
  "ownerChanged name old new = \<lparr>Sender = ''org.freedesktop.DBus'',
     Path = ''/org/freedesktop/DBus'', Name = signalNameOwnerChanged,
     Body = [VString name, VString old, VString new]\<rparr>"

definition sampleState :: properties where
  "sampleState = \<lparr>PlaybackStatus = ''Playing'', LoopStatus = ''Track'', Shuffle = True,
     Media = zeroMedia\<lparr>Title := ''Old'', Year := 5\<rparr>\<rparr>"

definition invalidBatch :: "(string \<times> variant) list" where
  "invalidBatch = [(''PlaybackStatus'', VString ''Bogus''), (''LoopStatus'', VString ''Bogus'')]"

definition sampleBatch :: "(string \<times> variant) list" where
  "sampleBatch = [(''Shuffle'', VBool False), (''PlaybackStatus'', VString ''Paused''),
     (''LoopStatus'', VString ''Playlist''),
     (''Metadata'', VMap [(''xesam:album'', VOther 0)])]"


definition deafObject :: BusObject where
  "deafObject = \<lparr>GetProperty = (\<lambda>n. Inl ''no reply''), Call = (\<lambda>n. Some ''no reply'')\<rparr>"

definition samplePlayer :: "properties option \<Rightarrow> Player" where
  "samplePlayer ps = \<lparr>obj = deafObject, destination = ''org.mpris.MediaPlayer2.vlc'',
     Name = ''org.mpris.MediaPlayer2.vlc'', Short = ''vlc'', ownerID = '':1.42'',
     properties = ps, isConnected = True\<rparr>"

definition noYear :: rfc3339 where
  "noYear = (\<lambda>v. None)"


section \<open>Properties\<close>

subsection \<open>Auxiliary facts about the change batch\<close>

text \<open>
  The loop of \<open>UpdateProperties\<close> only appends to the change list, an entry touches the
  field of its own key and no other, and a batch with pairwise distinct keys splits at any
  of its entries into a part before and a part after that do not hold the key.
\<close>

lemma updateEntries_append:
  "updateEntries py (xs @ ys) st = updateEntries py ys (updateEntries py xs st)"
  by (induction py xs st rule: updateEntries.induct) simp_all

lemma updateEntry_changes:
  "\<exists>cs. snd (updateEntry py k v st) = snd st @ cs \<and> (cs = [] \<or> cs = [k])"
  by (auto simp: updateEntry_def Let_def split: variant.splits prod.splits option.splits)

lemma updateEntries_changes:
  "\<exists>cs. snd (updateEntries py props st) = snd st @ cs \<and> set cs \<subseteq> fst ` set props
      \<and> (distinct (map fst props) \<longrightarrow> distinct cs)"
proof (induction props arbitrary: st)
  case Nil
  then show ?case by simp
next
  case (Cons e props)
  obtain k v where e: "e = (k, v)" by (cases e)
  obtain c1 where c1: "snd (updateEntry py k v st) = snd st @ c1" "c1 = [] \<or> c1 = [k]"
    using updateEntry_changes by blast
  obtain c2 where c2: "snd (updateEntries py props (updateEntry py k v st)) = snd (updateEntry py k v st) @ c2"
     "set c2 \<subseteq> fst ` set props" "distinct (map fst props) \<longrightarrow> distinct c2"
    using Cons.IH by blast
  have "snd (updateEntries py (e # props) st) = snd st @ (c1 @ c2)"
    using e c1 c2 by simp
  moreover have "set (c1 @ c2) \<subseteq> fst ` set (e # props)"
    using e c1 c2 by auto
  moreover have "distinct (map fst (e # props)) \<longrightarrow> distinct (c1 @ c2)"
    using e c1 c2 by auto
  ultimately show ?case by blast
qed

lemma updateEntry_other_Shuffle:
  "''Shuffle'' \<noteq> k \<Longrightarrow> Shuffle (fst (updateEntry py k v st)) = Shuffle (fst st)"
  by (auto simp: updateEntry_def Let_def split: variant.splits prod.splits option.splits)

lemma updateEntry_other_PlaybackStatus:
  "''PlaybackStatus'' \<noteq> k \<Longrightarrow> PlaybackStatus (fst (updateEntry py k v st)) = PlaybackStatus (fst st)"
  by (auto simp: updateEntry_def Let_def split: variant.splits prod.splits option.splits)

lemma updateEntry_other_LoopStatus:
  "''LoopStatus'' \<noteq> k \<Longrightarrow> LoopStatus (fst (updateEntry py k v st)) = LoopStatus (fst st)"
  by (auto simp: updateEntry_def Let_def split: variant.splits prod.splits option.splits)

lemma updateEntry_other_Media:
  "''Metadata'' \<noteq> k \<Longrightarrow> Media (fst (updateEntry py k v st)) = Media (fst st)"
  by (auto simp: updateEntry_def Let_def split: variant.splits prod.splits option.splits)

lemma updateEntries_absent_Shuffle:
  "''Shuffle'' \<notin> fst ` set props \<Longrightarrow> Shuffle (fst (updateEntries py props st)) = Shuffle (fst st)"
  by (induction py props st rule: updateEntries.induct) (simp_all add: updateEntry_other_Shuffle)

lemma updateEntries_absent_PlaybackStatus:
  "''PlaybackStatus'' \<notin> fst ` set props \<Longrightarrow> PlaybackStatus (fst (updateEntries py props st)) = PlaybackStatus (fst st)"
  by (induction py props st rule: updateEntries.induct) (simp_all add: updateEntry_other_PlaybackStatus)

lemma updateEntries_absent_LoopStatus:
  "''LoopStatus'' \<notin> fst ` set props \<Longrightarrow> LoopStatus (fst (updateEntries py props st)) = LoopStatus (fst st)"
  by (induction py props st rule: updateEntries.induct) (simp_all add: updateEntry_other_LoopStatus)

lemma updateEntries_absent_Media:
  "''Metadata'' \<notin> fst ` set props \<Longrightarrow> Media (fst (updateEntries py props st)) = Media (fst st)"
  by (induction py props st rule: updateEntries.induct) (simp_all add: updateEntry_other_Media)

lemma updateEntries_absent_change:
  "k \<notin> fst ` set props \<Longrightarrow> (k \<in> set (snd (updateEntries py props st))) = (k \<in> set (snd st))"
  using updateEntries_changes [of py props st] by auto

lemma distinct_keys_split:
  assumes "wellFormedMap props" "(k, v) \<in> set props"
  obtains xs ys where "props = xs @ (k, v) # ys" "k \<notin> fst ` set xs" "k \<notin> fst ` set ys"
proof -
  obtain xs ys where s: "props = xs @ (k, v) # ys" using assms(2) by (meson split_list)
  have "k \<notin> fst ` set xs" "k \<notin> fst ` set ys"
    using assms(1) unfolding wellFormedMap_def s by auto
  with s that show ?thesis by blast
qed

lemma entry_invalid_PlaybackStatus:
  "\<not> PlaybackStatus_IsValid v \<Longrightarrow> updateEntry py ''PlaybackStatus'' (VString v) st = st"
  by (simp add: updateEntry_def)

lemma entry_invalid_LoopStatus:
  "\<not> LoopStatus_IsValid v \<Longrightarrow>
     LoopStatus (fst (updateEntry py ''LoopStatus'' (VString v) st)) = LoopStatusNone \<and>
     snd (updateEntry py ''LoopStatus'' (VString v) st) =
       snd st @ (if LoopStatus (fst st) \<noteq> LoopStatusNone then [''LoopStatus''] else [])"
  by (simp add: updateEntry_def Let_def)

lemma UpdateProperties_unfold:
  "cached (fst (UpdateProperties py p props)) = fst (updateEntries py props (cached p, []))"
  "snd (UpdateProperties py p props) = snd (updateEntries py props (cached p, []))"
  by (simp_all add: UpdateProperties_def Let_def cached_def)

lemma entry_settled_Shuffle:
  "Shuffle (fst t) = Shuffle (fst (updateEntry py ''Shuffle'' v s))
     \<Longrightarrow> snd (updateEntry py ''Shuffle'' v t) = snd t"
  by (cases v) (auto simp: updateEntry_def Let_def)

lemma entry_settled_PlaybackStatus:
  "PlaybackStatus (fst t) = PlaybackStatus (fst (updateEntry py ''PlaybackStatus'' v s))
     \<Longrightarrow> snd (updateEntry py ''PlaybackStatus'' v t) = snd t"
  by (cases v) (auto simp: updateEntry_def Let_def)

lemma entry_settled_LoopStatus:
  "LoopStatus (fst t) = LoopStatus (fst (updateEntry py ''LoopStatus'' v s))
     \<Longrightarrow> snd (updateEntry py ''LoopStatus'' v t) = snd t"
  by (cases v) (auto simp: updateEntry_def Let_def)

lemma settled:
  assumes wf: "wellFormedMap props" and wf': "wellFormedMap props'"
    and same: "set props' = set props"
    and frame: "\<And>xs st. K \<notin> fst ` set xs \<Longrightarrow> F (fst (updateEntries py xs st)) = F (fst st)"
    and entry: "\<And>v s t. F (fst t) = F (fst (updateEntry py K v s))
                  \<Longrightarrow> snd (updateEntry py K v t) = snd t"
  shows "K \<notin> set (snd (updateEntries py props' (fst (updateEntries py props st), [])))"
proof (cases "K \<in> fst ` set props")
  case False
  then have "K \<notin> fst ` set props'" by (simp add: same)
  then show ?thesis by (simp add: updateEntries_absent_change)
next
  case True
  then obtain v where v: "(K, v) \<in> set props" by auto
  then obtain xs ys where s: "props = xs @ (K, v) # ys" "K \<notin> fst ` set xs" "K \<notin> fst ` set ys"
    using distinct_keys_split [OF wf] by metis
  have "(K, v) \<in> set props'" using v by (simp add: same)
  then obtain xs' ys' where s': "props' = xs' @ (K, v) # ys'"
      "K \<notin> fst ` set xs'" "K \<notin> fst ` set ys'"
    using distinct_keys_split [OF wf'] by metis
  define s1 where "s1 = updateEntries py xs st"
  define s2 where "s2 = updateEntry py K v s1"
  define s3 where "s3 = updateEntries py ys s2"
  define t1 where "t1 = updateEntries py xs' (fst s3, [])"
  define t2 where "t2 = updateEntry py K v t1"
  have first: "updateEntries py props st = s3"
    by (simp add: s(1) updateEntries_append s1_def s2_def s3_def)
  have second: "updateEntries py props' (fst s3, []) = updateEntries py ys' t2"
    by (simp add: s'(1) updateEntries_append t1_def t2_def)
  have "F (fst t1) = F (fst s3)"
    by (simp add: t1_def frame [OF s'(2)])
  also have "\<dots> = F (fst s2)"
    by (simp add: s3_def frame [OF s(3)])
  finally have "snd t2 = snd t1"
    unfolding t2_def s2_def by (rule entry)
  moreover have "K \<notin> set (snd t1)"
    by (simp add: t1_def updateEntries_absent_change [OF s'(2)])
  ultimately have "K \<notin> set (snd (updateEntries py ys' t2))"
    by (simp add: updateEntries_absent_change [OF s'(3)])
  then show ?thesis by (simp add: first second)
qed

lemma metadata_reported:
  assumes "(''Metadata'', VMap kvs) \<in> set props"
  shows "''Metadata'' \<in> set (snd (updateEntries py props st))"
proof -
  obtain xs ys where s: "props = xs @ (''Metadata'', VMap kvs) # ys"
    using assms by (meson split_list)
  define s1 where "s1 = updateEntries py xs st"
  define s2 where "s2 = updateEntry py ''Metadata'' (VMap kvs) s1"
  have "snd s2 = snd s1 @ [''Metadata'']"
    by (simp add: s2_def updateEntry_def decodeMetadata_def Let_def)
  moreover obtain cs where "snd (updateEntries py ys s2) = snd s2 @ cs"
    using updateEntries_changes by blast
  ultimately have "''Metadata'' \<in> set (snd (updateEntries py ys s2))" by simp
  then show ?thesis by (simp add: s updateEntries_append s1_def s2_def)
qed

subsection \<open>Auxiliary facts about the decoder\<close>

text \<open>
  An entry of \<open>decodeMetadata\<close> assigns the field of its own key and only when a type
  assertion of its case succeeds; \<open>int8\<close> conversion reads as reduction modulo 256.
\<close>

lemma decodeEntries_append:
  "decodeEntries py (xs @ ys) m = decodeEntries py ys (decodeEntries py xs m)"
  by (induction py xs m rule: decodeEntries.induct) simp_all


lemmas mistyped_defs = mistyped_def stringKeys_def isString_def isStrings_def isInt64_def

lemma keep_ID:
  "(key = ''mpris:trackid'' \<longrightarrow> mistyped ''mpris:trackid'' val)
     \<Longrightarrow> ID (decodeEntry py key val m) = ID m"
  by (cases val) (simp_all add: decodeEntry_def mistyped_defs split: option.splits)


lemma keep_Length:
  "(key = ''mpris:length'' \<longrightarrow> mistyped ''mpris:length'' val)
     \<Longrightarrow> Length (decodeEntry py key val m) = Length m"
  by (cases val) (simp_all add: decodeEntry_def mistyped_defs split: option.splits)


lemma keep_ArtURL:
  "(key = ''mpris:artUrl'' \<longrightarrow> mistyped ''mpris:artUrl'' val)
     \<Longrightarrow> ArtURL (decodeEntry py key val m) = ArtURL m"
  by (cases val) (simp_all add: decodeEntry_def mistyped_defs split: option.splits)


lemma keep_Artist:
  "(key = ''xesam:artist'' \<longrightarrow> mistyped ''xesam:artist'' val)
     \<Longrightarrow> Artist (decodeEntry py key val m) = Artist m"
  by (cases val) (simp_all add: decodeEntry_def mistyped_defs split: option.splits)


lemma keep_Album:
  "(key = ''xesam:album'' \<longrightarrow> mistyped ''xesam:album'' val)
     \<Longrightarrow> Album (decodeEntry py key val m) = Album m"
  by (cases val) (simp_all add: decodeEntry_def mistyped_defs split: option.splits)


lemma keep_AlbumArtist:
  "(key = ''xesam:albumArtist'' \<longrightarrow> mistyped ''xesam:albumArtist'' val)
     \<Longrightarrow> AlbumArtist (decodeEntry py key val m) = AlbumArtist m"
  by (cases val) (simp_all add: decodeEntry_def mistyped_defs split: option.splits)


lemma keep_Title:
  "(key = ''xesam:title'' \<longrightarrow> mistyped ''xesam:title'' val)
     \<Longrightarrow> Title (decodeEntry py key val m) = Title m"
  by (cases val) (simp_all add: decodeEntry_def mistyped_defs split: option.splits)


lemma keep_Genre:
  "(key = ''xesam:genre'' \<longrightarrow> mistyped ''xesam:genre'' val)
     \<Longrightarrow> Genre (decodeEntry py key val m) = Genre m"
  by (cases val) (simp_all add: decodeEntry_def mistyped_defs split: option.splits)


lemma keep_Year:
  "(key = ''xesam:contentCreated'' \<longrightarrow> mistyped ''xesam:contentCreated'' val)
     \<Longrightarrow> Year (decodeEntry py key val m) = Year m"
  by (cases val) (simp_all add: decodeEntry_def mistyped_defs split: option.splits)


lemma keep_URL:
  "(key = ''xesam:url'' \<longrightarrow> mistyped ''xesam:url'' val)
     \<Longrightarrow> URL (decodeEntry py key val m) = URL m"
  by (cases val) (simp_all add: decodeEntry_def mistyped_defs split: option.splits)


lemma mistyped_no_effect:
  assumes "mistyped key val"
  shows "decodeEntry py key val m = m"
proof -
  have h: "key = k \<longrightarrow> mistyped k val" for k
    using assms by auto
  show ?thesis
    by (intro Media.equality)
      (simp_all add: keep_ID [OF h] keep_Length [OF h] keep_ArtURL [OF h] keep_Artist [OF h]
        keep_Album [OF h] keep_AlbumArtist [OF h] keep_Title [OF h] keep_Genre [OF h]
        keep_Year [OF h] keep_URL [OF h])
qed






subsection \<open>Auxiliary facts about the listener\<close>

text \<open>One iteration of the loop on a \<open>NameOwnerChanged\<close> signal with two arguments or more.\<close>

lemmas signal_names = signalNameOwnerChanged_def signalNamePropertiesChanged_def
  interfacePathDBus_def interfacePathDBusProperties_def memberNameOwnerChanged_def
  memberNamePropertiesChanged_def

lemma owner_changed_step:
  assumes "Signal.Name msg = signalNameOwnerChanged" "Body msg = b0 # b1 # bs"
  shows "handleSignal py p msg =
     (if b0 = VString (Player.Name p) \<and> (\<exists>owner. b1 = VString owner \<and> owner \<noteq> [])
      then BreakLoop else Continue p [])"
proof -
  have n: "signalNameOwnerChanged \<noteq> signalNamePropertiesChanged"
    by (simp add: signal_names)
  show ?thesis
    using n by (cases b0; cases b1) (auto simp: handleSignal_def assms)
qed

lemma listener_Continue:
  "handleSignal py p msg = Continue p [] \<Longrightarrow> listener py p (msg # msgs) = listener py p msgs"
  by (simp add: listener_def)

lemma listener_BreakLoop:
  "handleSignal py p msg = BreakLoop \<Longrightarrow> listener py p (msg # msgs) = (p, teardown p, OwnerChanged)"
  by (simp add: listener_def)

subsection \<open>The destination name\<close>

text \<open>
  C8. \<open>HasValidDestinationName\<close> accepts \<open>org.mpris.MediaPlayer2.spotify\<close> and
  \<open>org.mpris.MediaPlayer2.vlc.instance1234\<close>, and rejects \<open>org.mpris.MediaPlayer2.\<close>
  (nothing after the prefix) and \<open>com.example.spotify\<close> (another prefix).
\<close>

theorem HasValidDestinationName_samples:
  "HasValidDestinationName ''org.mpris.MediaPlayer2.spotify'' \<and>
   HasValidDestinationName ''org.mpris.MediaPlayer2.vlc.instance1234'' \<and>
   \<not> HasValidDestinationName ''org.mpris.MediaPlayer2.'' \<and>
   \<not> HasValidDestinationName ''com.example.spotify''"
  by (simp add: HasValidDestinationName_def FindStringSubmatch_def destinationPrefix_def
      inFirstClass_def inRestClass_def isLetter_def isDigit_def runeWidth_def)

subsection \<open>Applying a change batch\<close>

text \<open>
  C3. Let a batch with pairwise distinct keys be applied. If its \<open>PlaybackStatus\<close> entry
  is a string outside Playing, Paused, Stopped, the cached playback status stays as it was
  and \<open>PlaybackStatus\<close> is not in the change list. If its \<open>LoopStatus\<close> entry is a
  string outside None, Track, Playlist, the cached loop status becomes None, and
  \<open>LoopStatus\<close> is in the change list exactly when the loop status was not None before.
\<close>

theorem invalid_status_values:
  assumes "wellFormedMap props"
  shows "((''PlaybackStatus'', VString v) \<in> set props \<and> \<not> PlaybackStatus_IsValid v \<longrightarrow>
           PlaybackStatus (cached (fst (UpdateProperties py p props))) = PlaybackStatus (cached p) \<and>
           ''PlaybackStatus'' \<notin> set (snd (UpdateProperties py p props))) \<and>
         ((''LoopStatus'', VString w) \<in> set props \<and> \<not> LoopStatus_IsValid w \<longrightarrow>
           LoopStatus (cached (fst (UpdateProperties py p props))) = LoopStatusNone \<and>
           (''LoopStatus'' \<in> set (snd (UpdateProperties py p props))
              \<longleftrightarrow> LoopStatus (cached p) \<noteq> LoopStatusNone))"
proof (intro conjI impI)
  assume a: "(''PlaybackStatus'', VString v) \<in> set props \<and> \<not> PlaybackStatus_IsValid v"
  obtain xs ys where s: "props = xs @ (''PlaybackStatus'', VString v) # ys"
      "''PlaybackStatus'' \<notin> fst ` set xs" "''PlaybackStatus'' \<notin> fst ` set ys"
    using distinct_keys_split [OF assms conjunct1 [OF a]] by metis
  have e: "updateEntries py props (cached p, []) = updateEntries py ys (updateEntries py xs (cached p, []))"
    using a by (simp add: s(1) updateEntries_append entry_invalid_PlaybackStatus)
  show "PlaybackStatus (cached (fst (UpdateProperties py p props))) = PlaybackStatus (cached p)"
    by (simp add: UpdateProperties_unfold e updateEntries_absent_PlaybackStatus s(2,3))
  show "''PlaybackStatus'' \<notin> set (snd (UpdateProperties py p props))"
    by (simp add: UpdateProperties_unfold e updateEntries_absent_change s(2,3))
next
  assume a: "(''LoopStatus'', VString w) \<in> set props \<and> \<not> LoopStatus_IsValid w"
  obtain xs ys where s: "props = xs @ (''LoopStatus'', VString w) # ys"
      "''LoopStatus'' \<notin> fst ` set xs" "''LoopStatus'' \<notin> fst ` set ys"
    using distinct_keys_split [OF assms conjunct1 [OF a]] by metis
  define st1 where "st1 = updateEntries py xs (cached p, [])"
  define st2 where "st2 = updateEntry py ''LoopStatus'' (VString w) st1"
  have e: "updateEntries py props (cached p, []) = updateEntries py ys st2"
    by (simp add: s(1) updateEntries_append st1_def st2_def)
  have l1: "LoopStatus (fst st1) = LoopStatus (cached p)" "''LoopStatus'' \<notin> set (snd st1)"
    by (simp_all add: st1_def updateEntries_absent_LoopStatus updateEntries_absent_change s(2,3))
  have l2: "LoopStatus (fst st2) = LoopStatusNone"
    "snd st2 = snd st1 @ (if LoopStatus (fst st1) \<noteq> LoopStatusNone then [''LoopStatus''] else [])"
    using entry_invalid_LoopStatus [of w py st1] a by (simp_all add: st2_def)
  show "LoopStatus (cached (fst (UpdateProperties py p props))) = LoopStatusNone"
    by (simp add: UpdateProperties_unfold e updateEntries_absent_LoopStatus s(2,3) l2)
  show "''LoopStatus'' \<in> set (snd (UpdateProperties py p props))
              \<longleftrightarrow> LoopStatus (cached p) \<noteq> LoopStatusNone"
    using l1 l2 by (simp add: UpdateProperties_unfold e updateEntries_absent_change s(2,3))
qed

text \<open>
  The batch \<open>invalidBatch\<close> on a player that caches Playing and Track: the playback
  status stays Playing and is not reported, the loop status becomes None and is reported.
\<close>

theorem invalid_status_values_witness:
  "wellFormedMap invalidBatch \<and>
   (''PlaybackStatus'', VString ''Bogus'') \<in> set invalidBatch \<and>
   \<not> PlaybackStatus_IsValid ''Bogus'' \<and>
   (''LoopStatus'', VString ''Bogus'') \<in> set invalidBatch \<and>
   \<not> LoopStatus_IsValid ''Bogus'' \<and>
   PlaybackStatus (cached (fst (UpdateProperties noYear (samplePlayer (Some sampleState)) invalidBatch)))
     = ''Playing'' \<and>
   ''PlaybackStatus'' \<notin> set (snd (UpdateProperties noYear (samplePlayer (Some sampleState)) invalidBatch)) \<and>
   LoopStatus (cached (fst (UpdateProperties noYear (samplePlayer (Some sampleState)) invalidBatch)))
     = ''None'' \<and>
   ''LoopStatus'' \<in> set (snd (UpdateProperties noYear (samplePlayer (Some sampleState)) invalidBatch))"
proof -
  have w: "wellFormedMap invalidBatch"
    by (simp add: wellFormedMap_def invalidBatch_def)
  have i: "(''PlaybackStatus'', VString ''Bogus'') \<in> set invalidBatch"
    "(''LoopStatus'', VString ''Bogus'') \<in> set invalidBatch"
    by (simp_all add: invalidBatch_def)
  have n: "\<not> PlaybackStatus_IsValid ''Bogus''" "\<not> LoopStatus_IsValid ''Bogus''"
    by (simp_all add: PlaybackStatus_IsValid_def PlaybackStatusPaused_def
        PlaybackStatusPlaying_def PlaybackStatusStopped_def LoopStatus_IsValid_def
        LoopStatusNone_def LoopStatusTrack_def LoopStatusPlaylist_def)
  have c: "PlaybackStatus (cached (samplePlayer (Some sampleState))) = ''Playing''"
    "LoopStatus (cached (samplePlayer (Some sampleState))) \<noteq> LoopStatusNone"
    by (simp_all add: cached_def samplePlayer_def sampleState_def LoopStatusNone_def)
  show ?thesis
    using invalid_status_values [OF w, of "''Bogus''" noYear "samplePlayer (Some sampleState)" "''Bogus''"]
      w i n c
    by (simp add: LoopStatusNone_def)
qed

text \<open>
  C4. Let a batch be applied twice in a row; \<open>props\<close> and \<open>props'\<close> list its entries in
  the orders in which the \<open>range\<close> loops of the first and of the second application visit
  them, two orders of the same entries with pairwise distinct keys. The change list of the
  second application holds none of \<open>Shuffle\<close>, \<open>PlaybackStatus\<close> and \<open>LoopStatus\<close>; it
  holds \<open>Metadata\<close> whenever the batch has a \<open>Metadata\<close> entry that is a key/value map.
\<close>

theorem UpdateProperties_twice:
  assumes "wellFormedMap props" "wellFormedMap props'" "set props' = set props"
  shows "''Shuffle'' \<notin> set (snd (UpdateProperties py (fst (UpdateProperties py p props)) props')) \<and>
     ''PlaybackStatus'' \<notin> set (snd (UpdateProperties py (fst (UpdateProperties py p props)) props')) \<and>
     ''LoopStatus'' \<notin> set (snd (UpdateProperties py (fst (UpdateProperties py p props)) props')) \<and>
     ((''Metadata'', VMap kvs) \<in> set props \<longrightarrow>
        ''Metadata'' \<in> set (snd (UpdateProperties py (fst (UpdateProperties py p props)) props')))"
proof -
  have "''Shuffle'' \<notin> set (snd (updateEntries py props' (fst (updateEntries py props (cached p, [])), [])))"
    by (rule settled [where F = Shuffle, OF assms updateEntries_absent_Shuffle
          entry_settled_Shuffle])
  moreover have "''PlaybackStatus'' \<notin> set (snd (updateEntries py props' (fst (updateEntries py props (cached p, [])), [])))"
    by (rule settled [where F = PlaybackStatus, OF assms updateEntries_absent_PlaybackStatus
          entry_settled_PlaybackStatus])
  moreover have "''LoopStatus'' \<notin> set (snd (updateEntries py props' (fst (updateEntries py props (cached p, [])), [])))"
    by (rule settled [where F = LoopStatus, OF assms updateEntries_absent_LoopStatus
          entry_settled_LoopStatus])
  ultimately show ?thesis
    using metadata_reported [of kvs props' py] assms(3) by (simp add: UpdateProperties_unfold)
qed

text \<open>
  The batch \<open>sampleBatch\<close> changes all four fields of \<open>sampleState\<close>; applied again, its
  entries visited in the reverse order, it reports \<open>Metadata\<close> alone.
\<close>

theorem UpdateProperties_twice_witness:
  "wellFormedMap sampleBatch \<and> wellFormedMap (rev sampleBatch) \<and>
   set (rev sampleBatch) = set sampleBatch \<and>
   (''Metadata'', VMap [(''xesam:album'', VOther 0)]) \<in> set sampleBatch \<and>
   snd (UpdateProperties noYear (samplePlayer (Some sampleState)) sampleBatch)
     = [''Shuffle'', ''PlaybackStatus'', ''LoopStatus'', ''Metadata''] \<and>
   ''Shuffle'' \<notin> set (snd (UpdateProperties noYear
       (fst (UpdateProperties noYear (samplePlayer (Some sampleState)) sampleBatch))
       (rev sampleBatch))) \<and>
   ''PlaybackStatus'' \<notin> set (snd (UpdateProperties noYear
       (fst (UpdateProperties noYear (samplePlayer (Some sampleState)) sampleBatch))
       (rev sampleBatch))) \<and>
   ''LoopStatus'' \<notin> set (snd (UpdateProperties noYear
       (fst (UpdateProperties noYear (samplePlayer (Some sampleState)) sampleBatch))
       (rev sampleBatch))) \<and>
   ''Metadata'' \<in> set (snd (UpdateProperties noYear
       (fst (UpdateProperties noYear (samplePlayer (Some sampleState)) sampleBatch))
       (rev sampleBatch)))"
proof -
  have w: "wellFormedMap sampleBatch"
    by (simp add: wellFormedMap_def sampleBatch_def)
  have w': "wellFormedMap (rev sampleBatch)"
    by (simp add: wellFormedMap_def sampleBatch_def)
  have r: "set (rev sampleBatch) = set sampleBatch"
    by simp
  have i: "(''Metadata'', VMap [(''xesam:album'', VOther 0)]) \<in> set sampleBatch"
    by (simp add: sampleBatch_def)
  have f: "snd (UpdateProperties noYear (samplePlayer (Some sampleState)) sampleBatch)
     = [''Shuffle'', ''PlaybackStatus'', ''LoopStatus'', ''Metadata'']"
    by (simp add: UpdateProperties_def cached_def samplePlayer_def sampleState_def sampleBatch_def
        updateEntry_def decodeMetadata_def Let_def PlaybackStatus_IsValid_def
        PlaybackStatusPaused_def LoopStatus_IsValid_def LoopStatusPlaylist_def)
  note t = UpdateProperties_twice [OF w w' r, of noYear "samplePlayer (Some sampleState)"
        "[(''xesam:album'', VOther 0)]"]
  show ?thesis
    using w w' i f t [THEN conjunct1] t [THEN conjunct2, THEN conjunct1]
      t [THEN conjunct2, THEN conjunct2, THEN conjunct1]
      t [THEN conjunct2, THEN conjunct2, THEN conjunct2, THEN mp, OF i]
    by (intro conjI) simp_all
qed

text \<open>
  C10. Applying a batch leaves the cached shuffle flag, playback status, loop status and
  track record as they were when the key of the field (\<open>Shuffle\<close>, \<open>PlaybackStatus\<close>,
  \<open>LoopStatus\<close>, \<open>Metadata\<close>) is not a key of the batch. The change list holds keys of
  the batch only, and no name twice when the keys of the batch are pairwise distinct.
\<close>

theorem UpdateProperties_frame:
  "(''Shuffle'' \<notin> fst ` set props \<longrightarrow>
      Shuffle (cached (fst (UpdateProperties py p props))) = Shuffle (cached p)) \<and>
   (''PlaybackStatus'' \<notin> fst ` set props \<longrightarrow>
      PlaybackStatus (cached (fst (UpdateProperties py p props))) = PlaybackStatus (cached p)) \<and>
   (''LoopStatus'' \<notin> fst ` set props \<longrightarrow>
      LoopStatus (cached (fst (UpdateProperties py p props))) = LoopStatus (cached p)) \<and>
   (''Metadata'' \<notin> fst ` set props \<longrightarrow>
      Media (cached (fst (UpdateProperties py p props))) = Media (cached p)) \<and>
   set (snd (UpdateProperties py p props)) \<subseteq> fst ` set props \<and>
   (wellFormedMap props \<longrightarrow> distinct (snd (UpdateProperties py p props)))"
  using updateEntries_changes [of py props "(cached p, [])"]
  by (auto simp: UpdateProperties_unfold updateEntries_absent_Shuffle
      updateEntries_absent_PlaybackStatus updateEntries_absent_LoopStatus
      updateEntries_absent_Media wellFormedMap_def)

text \<open>
  A batch with the one key \<open>Volume\<close> leaves the four fields of \<open>sampleState\<close> as they
  were; \<open>invalidBatch\<close> has two keys and reports one of them, once.
\<close>

theorem UpdateProperties_frame_witness:
  "''Shuffle'' \<notin> fst ` set [(''Volume'', VOther 0)] \<and>
   ''PlaybackStatus'' \<notin> fst ` set [(''Volume'', VOther 0)] \<and>
   ''LoopStatus'' \<notin> fst ` set [(''Volume'', VOther 0)] \<and>
   ''Metadata'' \<notin> fst ` set [(''Volume'', VOther 0)] \<and>
   cached (fst (UpdateProperties noYear (samplePlayer (Some sampleState)) [(''Volume'', VOther 0)]))
     = sampleState \<and>
   wellFormedMap invalidBatch \<and>
   snd (UpdateProperties noYear (samplePlayer (Some sampleState)) invalidBatch) = [''LoopStatus''] \<and>
   set (snd (UpdateProperties noYear (samplePlayer (Some sampleState)) invalidBatch))
     \<subseteq> fst ` set invalidBatch \<and>
   distinct (snd (UpdateProperties noYear (samplePlayer (Some sampleState)) invalidBatch))"
proof -
  have w: "wellFormedMap invalidBatch"
    by (simp add: wellFormedMap_def invalidBatch_def)
  have c: "cached (samplePlayer (Some sampleState)) = sampleState"
    by (simp add: cached_def samplePlayer_def)
  have v: "cached (fst (UpdateProperties noYear (samplePlayer (Some sampleState)) [(''Volume'', VOther 0)]))
     = sampleState"
    by (simp add: UpdateProperties_def cached_def samplePlayer_def updateEntry_def Let_def)
  have l: "snd (UpdateProperties noYear (samplePlayer (Some sampleState)) invalidBatch) = [''LoopStatus'']"
    by (simp add: UpdateProperties_def cached_def samplePlayer_def sampleState_def invalidBatch_def
        updateEntry_def Let_def PlaybackStatus_IsValid_def PlaybackStatusPaused_def
        PlaybackStatusPlaying_def PlaybackStatusStopped_def LoopStatus_IsValid_def
        LoopStatusNone_def LoopStatusTrack_def LoopStatusPlaylist_def)
  show ?thesis
    using UpdateProperties_frame [of "[(''Volume'', VOther 0)]" noYear "samplePlayer (Some sampleState)"]
      UpdateProperties_frame [of invalidBatch noYear "samplePlayer (Some sampleState)"] w v l
    by simp
qed

subsection \<open>The decoder\<close>

text \<open>
  C7. \<open>decodeMetadata\<close> returns an error exactly when the value is not a key/value map.
  An entry whose value has the wrong type for its key has no effect: the call leaves the
  record as the same call on the map without the entry does, so that the other entries
  are decoded as they are without it.
\<close>

theorem decodeMetadata_fails_only_on_shape:
  "(fst (decodeMetadata py v m) \<noteq> None) = (\<forall>kvs. v \<noteq> VMap kvs) \<and>
   (mistyped key val \<longrightarrow>
      decodeMetadata py (VMap (xs @ (key, val) # ys)) m = decodeMetadata py (VMap (xs @ ys)) m)"
proof
  show "(fst (decodeMetadata py v m) \<noteq> None) = (\<forall>kvs. v \<noteq> VMap kvs)"
    by (cases v) (simp_all add: decodeMetadata_def)
  show "mistyped key val \<longrightarrow>
      decodeMetadata py (VMap (xs @ (key, val) # ys)) m = decodeMetadata py (VMap (xs @ ys)) m"
    by (simp add: decodeMetadata_def decodeEntries_append mistyped_no_effect)
qed

text \<open>
  A title that is not a string, before an album that is one: no error, the album is
  decoded and the title stays empty.
\<close>

theorem decodeMetadata_fails_only_on_shape_witness:
  "mistyped ''xesam:title'' (VOther 0) \<and>
   decodeMetadata noYear
      (VMap [(''xesam:title'', VOther 0), (''xesam:album'', VString ''A'')]) zeroMedia
     = (None, zeroMedia\<lparr>Album := ''A''\<rparr>) \<and>
   fst (decodeMetadata noYear (VString ''A'') zeroMedia) \<noteq> None"
proof -
  have t: "mistyped ''xesam:title'' (VOther 0)"
    by (simp add: mistyped_defs)
  have a: "decodeMetadata noYear (VMap [(''xesam:album'', VString ''A'')]) zeroMedia
     = (None, zeroMedia\<lparr>Album := ''A''\<rparr>)"
    by (simp add: decodeMetadata_def decodeEntry_def)
  show ?thesis
    using decodeMetadata_fails_only_on_shape [of noYear "VString ''A''" zeroMedia
        "''xesam:title''" "VOther 0" "[]" "[(''xesam:album'', VString ''A'')]"] t a
    by simp
qed




subsection \<open>The cached track\<close>




subsection \<open>The listener\<close>

text \<open>
  C2, as amended. Let a \<open>NameOwnerChanged\<close> signal carry at least two arguments. When
  the first is the bus name of the endpoint, the listener leaves its loop and runs the
  teardown (the signal channel is removed, the disconnect callback is called, both match
  rules are removed, the channel is closed) exactly when the second argument,
  \<open>msg.Body[1]\<close>, is a non-empty string; otherwise the signal changes nothing and the
  listener goes on with the signals that follow. When the first argument is not the bus
  name of the endpoint, the listener goes on likewise. The second argument of
  \<open>NameOwnerChanged\<close> is the old owner of the name; the new owner is the third.
\<close>

theorem owner_changed_second_argument:
  assumes "Signal.Name msg = signalNameOwnerChanged" "Body msg = b0 # b1 # bs"
  shows "(b0 = VString (Player.Name p) \<longrightarrow>
           (handleSignal py p msg = BreakLoop \<longleftrightarrow> (\<exists>owner. b1 = VString owner \<and> owner \<noteq> [])) \<and>
           (handleSignal py p msg = BreakLoop \<longrightarrow>
              listener py p (msg # msgs) = (p, teardown p, OwnerChanged)) \<and>
           (handleSignal py p msg \<noteq> BreakLoop \<longrightarrow>
              handleSignal py p msg = Continue p [] \<and>
              listener py p (msg # msgs) = listener py p msgs)) \<and>
         (b0 \<noteq> VString (Player.Name p) \<longrightarrow>
            handleSignal py p msg = Continue p [] \<and>
            listener py p (msg # msgs) = listener py p msgs)"
  using owner_changed_step [OF assms, of py p]
  by (auto simp: listener_Continue listener_BreakLoop)

text \<open>
  Three signals for the player named \<open>org.mpris.MediaPlayer2.vlc\<close>: its name with the
  old owner \<open>:1.42\<close> ends the listener; its name with an empty second argument does
  not; another name does not.
\<close>

theorem owner_changed_second_argument_witness:
  "Signal.Name (ownerChanged ''org.mpris.MediaPlayer2.vlc'' '':1.42'' '''') = signalNameOwnerChanged \<and>
   Body (ownerChanged ''org.mpris.MediaPlayer2.vlc'' '':1.42'' '''')
     = [VString (Player.Name (samplePlayer None)), VString '':1.42'', VString ''''] \<and>
   handleSignal noYear (samplePlayer None)
      (ownerChanged ''org.mpris.MediaPlayer2.vlc'' '':1.42'' '''') = BreakLoop \<and>
   listener noYear (samplePlayer None)
      [ownerChanged ''org.mpris.MediaPlayer2.vlc'' '':1.42'' '''',
       ownerChanged ''org.mpris.MediaPlayer2.vlc'' '':1.42'' '''']
     = (samplePlayer None, teardown (samplePlayer None), OwnerChanged) \<and>
   handleSignal noYear (samplePlayer None)
      (ownerChanged ''org.mpris.MediaPlayer2.vlc'' '''' '':1.43'') \<noteq> BreakLoop \<and>
   listener noYear (samplePlayer None) [ownerChanged ''org.mpris.MediaPlayer2.vlc'' '''' '':1.43'']
     = listener noYear (samplePlayer None) [] \<and>
   VString ''org.mpris.MediaPlayer2.mpv'' \<noteq> VString (Player.Name (samplePlayer None)) \<and>
   listener noYear (samplePlayer None) [ownerChanged ''org.mpris.MediaPlayer2.mpv'' '':1.7'' '''']
     = listener noYear (samplePlayer None) []"
proof -
  have n: "Signal.Name (ownerChanged a b c) = signalNameOwnerChanged" for a b c
    by (simp add: ownerChanged_def)
  have b: "Body (ownerChanged a b c) = VString a # VString b # [VString c]" for a b c
    by (simp add: ownerChanged_def)
  have p: "VString ''org.mpris.MediaPlayer2.vlc'' = VString (Player.Name (samplePlayer None))"
    by (simp add: samplePlayer_def)
  have q: "VString ''org.mpris.MediaPlayer2.mpv'' \<noteq> VString (Player.Name (samplePlayer None))"
    by (simp add: samplePlayer_def)
  have e: "\<exists>owner. VString '':1.42'' = VString owner \<and> owner \<noteq> []"
    by simp
  have f: "\<not> (\<exists>owner. VString '''' = VString owner \<and> owner \<noteq> [])"
    by simp
  note left = owner_changed_second_argument [where py = noYear and p = "samplePlayer None"
        and msg = "ownerChanged ''org.mpris.MediaPlayer2.vlc'' '':1.42'' ''''"
        and msgs = "[ownerChanged ''org.mpris.MediaPlayer2.vlc'' '':1.42'' '''']",
        OF n b, THEN conjunct1, THEN mp, OF p]
  note taken = owner_changed_second_argument [where py = noYear and p = "samplePlayer None"
        and msg = "ownerChanged ''org.mpris.MediaPlayer2.vlc'' '''' '':1.43''"
        and msgs = "[]", OF n b, THEN conjunct1, THEN mp, OF p]
  note other = owner_changed_second_argument [where py = noYear and p = "samplePlayer None"
        and msg = "ownerChanged ''org.mpris.MediaPlayer2.mpv'' '':1.7'' ''''"
        and msgs = "[]", OF n b, THEN conjunct2, THEN mp, OF q]
  have 1: "handleSignal noYear (samplePlayer None)
      (ownerChanged ''org.mpris.MediaPlayer2.vlc'' '':1.42'' '''') = BreakLoop"
    by (rule left [THEN conjunct1, THEN iffD2, OF e])
  have 2: "handleSignal noYear (samplePlayer None)
      (ownerChanged ''org.mpris.MediaPlayer2.vlc'' '''' '':1.43'') \<noteq> BreakLoop"
    using taken [THEN conjunct1] f by simp
  show ?thesis
    using n [of "''org.mpris.MediaPlayer2.vlc''" "'':1.42''" "''''"]
      b [of "''org.mpris.MediaPlayer2.vlc''" "'':1.42''" "''''"] p [symmetric] 1
      left [THEN conjunct2, THEN conjunct1, THEN mp, OF 1] 2
      taken [THEN conjunct2, THEN conjunct2, THEN mp, OF 2, THEN conjunct2]
      q other [THEN conjunct2]
    by (intro conjI) simp_all
qed

text \<open>
  C2 as stated fails. When the owner \<open>:1.42\<close> of the name leaves the bus, the signal
  carries the name, the old owner \<open>:1.42\<close> and an empty new owner: the listener runs
  the teardown although the new owner is empty. When a process \<open>:1.43\<close> takes the free
  name, the signal carries the name, an empty old owner and the new owner \<open>:1.43\<close>: the
  listener goes on although the new owner is not empty, and the loop of \<open>main\<close> takes
  \<open>:1.43\<close>, the third argument, as the owner of the player it discovers.
\<close>

theorem owner_changed_not_new_owner:
  "listener noYear (samplePlayer None)
      [ownerChanged ''org.mpris.MediaPlayer2.vlc'' '':1.42'' '''']
     = (samplePlayer None, teardown (samplePlayer None), OwnerChanged) \<and>
   handleSignal noYear (samplePlayer None)
      (ownerChanged ''org.mpris.MediaPlayer2.vlc'' '''' '':1.43'')
     = Continue (samplePlayer None) [] \<and>
   discovered (ownerChanged ''org.mpris.MediaPlayer2.vlc'' '''' '':1.43'')
     = Some (''org.mpris.MediaPlayer2.vlc'', '':1.43'')"
proof (intro conjI)
  have b: "handleSignal noYear (samplePlayer None)
      (ownerChanged ''org.mpris.MediaPlayer2.vlc'' '':1.42'' '''') = BreakLoop"
    by (simp add: owner_changed_step [where bs = "[VString '''']"] ownerChanged_def samplePlayer_def)
  show "listener noYear (samplePlayer None)
      [ownerChanged ''org.mpris.MediaPlayer2.vlc'' '':1.42'' '''']
     = (samplePlayer None, teardown (samplePlayer None), OwnerChanged)"
    by (rule listener_BreakLoop [OF b])
  show "handleSignal noYear (samplePlayer None)
      (ownerChanged ''org.mpris.MediaPlayer2.vlc'' '''' '':1.43'')
     = Continue (samplePlayer None) []"
    by (simp add: owner_changed_step [where bs = "[VString '':1.43'']"] ownerChanged_def samplePlayer_def)
  show "discovered (ownerChanged ''org.mpris.MediaPlayer2.vlc'' '''' '':1.43'')
     = Some (''org.mpris.MediaPlayer2.vlc'', '':1.43'')"
    by (simp add: discovered_def ownerChanged_def HasValidDestinationName_def
        FindStringSubmatch_def destinationPrefix_def inFirstClass_def inRestClass_def
        isLetter_def isDigit_def runeWidth_def)
qed

subsection \<open>Control operations\<close>

text \<open>
  C5, as amended. For an endpoint whose state has been initialised (\<open>p.properties\<close> is
  not \<open>nil\<close>) and whose cached playback status is not Paused, when the \<open>CanPause\<close>
  query fails or answers false, \<open>Pause\<close> returns the unsupported-operation error, and
  the query is all it does to the remote object: it calls no method. On a \<open>nil\<close> state
  \<open>Pause\<close> panics before any query.
\<close>

theorem Pause_unsupported:
  assumes "properties p = Some ps" "PlaybackStatus ps \<noteq> PlaybackStatusPaused"
    and "(\<exists>err. GetProperty (obj p) ''org.mpris.MediaPlayer2.Player.CanPause'' = Inl err) \<or>
         GetProperty (obj p) ''org.mpris.MediaPlayer2.Player.CanPause'' = Inr (VBool False)"
  shows "Pause p = (Returned (Some (ErrUnsupported ''mpris.Pause'')),
           [RemoteGetProperty ''org.mpris.MediaPlayer2.Player.CanPause''])"
  using assms
  by (auto simp: Pause_def CanPause_def getPlayerProp_def isTrue_def Let_def
      interfacePathMprisMediaPlayer2Player_def)

text \<open>A player that caches Playing, on a remote object that fails every query.\<close>

theorem Pause_unsupported_witness:
  "properties (samplePlayer (Some sampleState)) = Some sampleState \<and>
   PlaybackStatus sampleState \<noteq> PlaybackStatusPaused \<and>
   GetProperty (obj (samplePlayer (Some sampleState))) ''org.mpris.MediaPlayer2.Player.CanPause''
     = Inl ''no reply'' \<and>
   Pause (samplePlayer (Some sampleState))
     = (Returned (Some (ErrUnsupported ''mpris.Pause'')),
        [RemoteGetProperty ''org.mpris.MediaPlayer2.Player.CanPause''])"
proof -
  have a: "properties (samplePlayer (Some sampleState)) = Some sampleState"
    by (simp add: samplePlayer_def)
  have b: "PlaybackStatus sampleState \<noteq> PlaybackStatusPaused"
    by (simp add: sampleState_def PlaybackStatusPaused_def)
  have c: "GetProperty (obj (samplePlayer (Some sampleState)))
      ''org.mpris.MediaPlayer2.Player.CanPause'' = Inl ''no reply''"
    by (simp add: samplePlayer_def deafObject_def)
  have d: "(\<exists>err. GetProperty (obj (samplePlayer (Some sampleState)))
         ''org.mpris.MediaPlayer2.Player.CanPause'' = Inl err) \<or>
       GetProperty (obj (samplePlayer (Some sampleState)))
         ''org.mpris.MediaPlayer2.Player.CanPause'' = Inr (VBool False)"
    using c by simp
  show ?thesis
    using a b c Pause_unsupported [OF a b d] by (intro conjI)
qed

text \<open>
  C5 as stated fails: on the same remote object, whose \<open>CanPause\<close> query fails, a
  player that caches Paused gets no error from \<open>Pause\<close>.
\<close>

theorem Pause_paused_no_error:
  "GetProperty (obj (samplePlayer (Some (zeroProperties\<lparr>PlaybackStatus := ''Paused''\<rparr>))))
      ''org.mpris.MediaPlayer2.Player.CanPause'' = Inl ''no reply'' \<and>
   Pause (samplePlayer (Some (zeroProperties\<lparr>PlaybackStatus := ''Paused''\<rparr>)))
     = (Returned None, [])"
  by (simp add: Pause_def samplePlayer_def deafObject_def PlaybackStatusPaused_def)

text \<open>
  C6. For an endpoint whose cached playback status is Playing, \<open>Play\<close> returns no error
  and does nothing to the remote object, neither a capability query nor a method call;
  so does \<open>Pause\<close> when the status is Paused, and \<open>Stop\<close> when it is Stopped.
\<close>

theorem cached_status_no_op:
  assumes "properties p = Some ps"
  shows "(PlaybackStatus ps = PlaybackStatusPlaying \<longrightarrow> Play p = (Returned None, [])) \<and>
         (PlaybackStatus ps = PlaybackStatusPaused \<longrightarrow> Pause p = (Returned None, [])) \<and>
         (PlaybackStatus ps = PlaybackStatusStopped \<longrightarrow> Stop p = (Returned None, []))"
  using assms by (simp add: Play_def Pause_def Stop_def)

text \<open>Three players, one for each status.\<close>

theorem cached_status_no_op_witness:
  "Play (samplePlayer (Some (zeroProperties\<lparr>PlaybackStatus := PlaybackStatusPlaying\<rparr>)))
     = (Returned None, []) \<and>
   Pause (samplePlayer (Some (zeroProperties\<lparr>PlaybackStatus := PlaybackStatusPaused\<rparr>)))
     = (Returned None, []) \<and>
   Stop (samplePlayer (Some (zeroProperties\<lparr>PlaybackStatus := PlaybackStatusStopped\<rparr>)))
     = (Returned None, [])"
proof -
  have a: "properties (samplePlayer (Some s)) = Some s" for s
    by (simp add: samplePlayer_def)
  have b: "PlaybackStatus (zeroProperties\<lparr>PlaybackStatus := s\<rparr>) = s" for s
    by simp
  show ?thesis
    using cached_status_no_op [OF a, THEN conjunct1, THEN mp, OF b]
      cached_status_no_op [OF a, THEN conjunct2, THEN conjunct1, THEN mp, OF b]
      cached_status_no_op [OF a, THEN conjunct2, THEN conjunct2, THEN mp, OF b]
    by (intro conjI)
qed

end
